theory Spec2Isabelle
  imports Complex_Main
begin

section \<open>Dates and date-fns differences\<close>

text \<open>
  A JavaScript \<open>Date\<close> holds a time value in milliseconds. The component reads and
  writes its dates in local time only (\<open>setHours\<close>, \<open>toDateString\<close>, \<open>getDate\<close>,
  \<open>setDate\<close>), so the model counts the milliseconds of local time, for a time zone
  with a constant offset to UTC: a local day is exactly \<open>msPerDay\<close> long. Comparing two
  dates (\<open>end <= start\<close>) compares their time values.
\<close>

type_synonym Date = int

definition msPerDay :: int where
  "msPerDay = 86400000"

definition msPerHour :: int where
  "msPerHour = 3600000"

definition Day :: "Date \<Rightarrow> int" where
  "Day t = t div msPerDay"

definition TimeWithinDay :: "Date \<Rightarrow> int" where
  "TimeWithinDay t = t mod msPerDay"

text \<open>
  \<open>d.setHours(h, 0, 0, 0)\<close> is \<open>MakeDate(Day(t), MakeTime(h, 0, 0, 0))\<close>: the same
  calendar day, at \<open>h\<close> hours past its midnight.
\<close>

definition setHours :: "Date \<Rightarrow> int \<Rightarrow> Date" where
  "setHours t h = Day t * msPerDay + h * msPerHour"

text \<open>
  \<open>d.toDateString()\<close> names the calendar day of \<open>d\<close> (weekday, month, day, year) and
  nothing of the time within the day: two dates have equal strings exactly when they
  lie on the same day, so the day number stands for the string.
\<close>

definition toDateString :: "Date \<Rightarrow> int" where
  "toDateString t = Day t"

text \<open>
  \<open>d.setDate(d.getDate() + 1)\<close>: \<open>getDate\<close> is the day of the month, and \<open>setDate(n)\<close>
  is \<open>MakeDate(MakeDay(year, month, n), TimeWithinDay(t))\<close>, where \<open>MakeDay\<close> counts
  \<open>n - 1\<close> days from the first of the month, past its end if need be. The day after
  the current one results, at the same time within the day.
\<close>

definition setDate_getDate_plus1 :: "Date \<Rightarrow> Date" where
  "setDate_getDate_plus1 t = (Day t + 1) * msPerDay + TimeWithinDay t"

text \<open>
  date-fns: \<open>differenceInHours\<close>, \<open>differenceInMinutes\<close> and \<open>differenceInSeconds\<close>
  divide the difference of the time values and round towards zero. JavaScript's \<open>%\<close>
  takes the sign of the dividend.
\<close>

definition truncDiv :: "int \<Rightarrow> int \<Rightarrow> int" where
  "truncDiv a b = (if 0 \<le> a then a div b else - ((- a) div b))"

definition jsRem :: "int \<Rightarrow> int \<Rightarrow> int" where
  "jsRem a b = a - b * truncDiv a b"

definition differenceInHours :: "Date \<Rightarrow> Date \<Rightarrow> int" where
  "differenceInHours l r = truncDiv (l - r) 3600000"

definition differenceInMinutes :: "Date \<Rightarrow> Date \<Rightarrow> int" where
  "differenceInMinutes l r = truncDiv (l - r) 60000"

definition differenceInSeconds :: "Date \<Rightarrow> Date \<Rightarrow> int" where
  "differenceInSeconds l r = truncDiv (l - r) 1000"

section \<open>Component state and effects\<close>

text \<open>
  The \<open>useState\<close> cells of \<open>CalendarFastEntry\<close>. The two copies of the component in the
  repository (\<open>src/components/CalendarFastEntry.tsx\<close> and a second copy of the same
  component, \<open>part_001\<close>) have the same cells but for \<open>showNotesInput\<close>, which only
  the second has and which no handler below reads. Definitions of the second copy
  carry the suffix \<open>_part001\<close> where the two differ.
\<close>

record State =
  startDate :: Date
  endDate :: Date
  startHour :: int
  endHour :: int
  showStartCalendar :: bool
  showEndCalendar :: bool
  notes_st :: string
  isTimerActive :: bool
  timerStartTime :: "Date option"
  elapsedSeconds :: int
  isPaused :: bool
  timerNotes :: string
  isLoading :: bool

text \<open>
  The argument of \<open>apiService.updateTimer\<close>: each field may be absent, and \<open>pausedAt\<close>
  may be present and \<open>null\<close>.
\<close>

record TimerUpdate =
  u_isPaused :: "bool option"
  u_pausedAt :: "Date option option"
  u_notes :: "string option"

datatype ApiCall =
  GetTimer
  | StartTimer Date string
  | UpdateTimer TimerUpdate
  | DeleteTimer

text \<open>
  What a handler does, in the order of its statements: a state setter, a call of the
  backend, a call of the \<open>onAddFast\<close> callback, an alert, a console line. The user id
  is a fixed prop passed to every backend call and is left out.
\<close>

datatype Effect =
  SetStartDate Date
  | SetEndDate Date
  | SetStartHour int
  | SetEndHour int
  | SetNotes string
  | SetIsTimerActive bool
  | SetTimerStartTime "Date option"
  | SetElapsedSeconds int
  | SetIsPaused bool
  | SetTimerNotes string
  | SetIsLoading bool
  | Api ApiCall
  | OnAddFast Date Date string
  | Alert string
  | ConsoleLog string
  | ConsoleError string
  | PreventDefault

fun apply_effect :: "Effect \<Rightarrow> State \<Rightarrow> State" where
  "apply_effect (SetStartDate d) s = s\<lparr>startDate := d\<rparr>"
| "apply_effect (SetEndDate d) s = s\<lparr>endDate := d\<rparr>"
| "apply_effect (SetStartHour h) s = s\<lparr>startHour := h\<rparr>"
| "apply_effect (SetEndHour h) s = s\<lparr>endHour := h\<rparr>"
| "apply_effect (SetNotes n) s = s\<lparr>notes_st := n\<rparr>"
| "apply_effect (SetIsTimerActive b) s = s\<lparr>isTimerActive := b\<rparr>"
| "apply_effect (SetTimerStartTime t) s = s\<lparr>timerStartTime := t\<rparr>"
| "apply_effect (SetElapsedSeconds n) s = s\<lparr>elapsedSeconds := n\<rparr>"
| "apply_effect (SetIsPaused b) s = s\<lparr>isPaused := b\<rparr>"
| "apply_effect (SetTimerNotes n) s = s\<lparr>timerNotes := n\<rparr>"
| "apply_effect (SetIsLoading b) s = s\<lparr>isLoading := b\<rparr>"
| "apply_effect (Api c) s = s"
| "apply_effect (OnAddFast a b n) s = s"
| "apply_effect (Alert m) s = s"
| "apply_effect (ConsoleLog m) s = s"
| "apply_effect (ConsoleError m) s = s"
| "apply_effect PreventDefault s = s"

fun run :: "Effect list \<Rightarrow> State \<Rightarrow> State" where
  "run [] s = s"
| "run (e # es) s = run es (apply_effect e s)"

section \<open>Manual entry: duration and submit\<close>

text \<open>
  \<open>calculateDuration\<close> returns the number \<open>0\<close> or an object with \<open>hours\<close>, \<open>minutes\<close>
  and \<open>total\<close>. \<open>total\<close> is \<open>hours + minutes / 60\<close>, a rational here.
\<close>

datatype DurationResult =
  Sentinel0
  | Duration (hours: int) (minutes: int) (total: rat)

text \<open>
  The locals \<open>start\<close> and \<open>end\<close>, which \<open>calculateDuration\<close> and \<open>handleSubmit\<close> build
  by the same statements. In \<open>src/components/CalendarFastEntry.tsx\<close> (lines 92-96 and
  218-222) both are a copy of the chosen date set to the chosen hour.
\<close>

definition start_local :: "State \<Rightarrow> Date" where
  "start_local s = setHours (startDate s) (startHour s)"

definition end_local :: "State \<Rightarrow> Date" where
  "end_local s = setHours (endDate s) (endHour s)"

text \<open>
  In the second copy (\<open>part_001\<close>, lines 93-103 and 225-235) \<open>end\<close> is moved to the
  next day when both dates name the same day and the end hour is below the start hour
  ("Handle overnight fasts").
\<close>

definition end_local_part001 :: "State \<Rightarrow> Date" where
  "end_local_part001 s =
     (let e = setHours (endDate s) (endHour s)
      in if toDateString (startDate s) = toDateString (endDate s) \<and> endHour s < startHour s
         then setDate_getDate_plus1 e
         else e)"

definition duration_between :: "Date \<Rightarrow> Date \<Rightarrow> DurationResult" where
  "duration_between endT startT =
     (if endT \<le> startT then Sentinel0
      else
        (let h = differenceInHours endT startT;
             m = jsRem (differenceInMinutes endT startT) 60
         in Duration h m (of_int h + of_int m / 60)))"

definition calculateDuration :: "State \<Rightarrow> DurationResult" where
  "calculateDuration s = duration_between (end_local s) (start_local s)"

definition calculateDuration_part001 :: "State \<Rightarrow> DurationResult" where
  "calculateDuration_part001 s = duration_between (end_local_part001 s) (start_local s)"

text \<open>
  \<open>handleSubmit\<close>: the alert and the early return when \<open>end <= start\<close>; otherwise the
  callback and the reset to the defaults. \<open>now1\<close> and \<open>now2\<close> are the two readings of
  the clock (\<open>new Date()\<close>) of the reset. The callback's result is not awaited.
\<close>

definition submit_between :: "State \<Rightarrow> Date \<Rightarrow> Date \<Rightarrow> Date \<Rightarrow> Date \<Rightarrow> Effect list" where
  "submit_between s startT endT now1 now2 =
     PreventDefault #
     (if endT \<le> startT then [Alert ''End time must be after start time'']
      else [OnAddFast startT endT (notes_st s),
            SetStartDate now1, SetEndDate now2, SetStartHour 20, SetEndHour 12,
            SetNotes []])"

definition handleSubmit :: "State \<Rightarrow> Date \<Rightarrow> Date \<Rightarrow> Effect list" where
  "handleSubmit s now1 now2 = submit_between s (start_local s) (end_local s) now1 now2"

definition handleSubmit_part001 :: "State \<Rightarrow> Date \<Rightarrow> Date \<Rightarrow> Effect list" where
  "handleSubmit_part001 s now1 now2 =
     submit_between s (start_local s) (end_local_part001 s) now1 now2"

section \<open>Live timer: backend calls and handlers\<close>

text \<open>
  The timer handlers are the same in both copies of the component. Each awaits the
  backend inside \<open>try\<close>: the promise resolves or rejects, and a rejection runs the
  \<open>catch\<close> block. \<open>now\<close> is the handler's reading of the clock (\<open>new Date()\<close>).
\<close>

datatype Outcome = Resolved | Rejected

text \<open>
  What \<open>apiService.getTimer\<close> resolves to, as far as the component reads it: nothing
  (no timer stored), or a start time, the pause flag, and the optional \<open>pausedAt\<close> and
  \<open>notes\<close>.
\<close>

record TimerData =
  td_startTime :: Date
  td_isPaused :: bool
  td_pausedAt :: "Date option"
  td_notes :: "string option"

datatype GetTimerResult = GetRejected | GetResolved "TimerData option"

definition loadTimerFromBackend :: "GetTimerResult \<Rightarrow> Date \<Rightarrow> Effect list" where
  "loadTimerFromBackend r now =
     [SetIsLoading True, Api GetTimer] @
     (case r of
        GetRejected \<Rightarrow> [ConsoleError ''Failed to load timer from backend:'']
      | GetResolved None \<Rightarrow> []
      | GetResolved (Some td) \<Rightarrow>
          [SetTimerStartTime (Some (td_startTime td)),
           SetIsTimerActive True,
           SetIsPaused (td_isPaused td),
           SetTimerNotes (case td_notes td of None \<Rightarrow> [] | Some n \<Rightarrow> n)] @
          (if \<not> td_isPaused td
           then [SetElapsedSeconds (differenceInSeconds now (td_startTime td))]
           else (case td_pausedAt td of
                   Some p \<Rightarrow> [SetElapsedSeconds (differenceInSeconds p (td_startTime td))]
                 | None \<Rightarrow> [])) @
          [ConsoleLog ''Timer state loaded from backend'']) @
     [SetIsLoading False]"

definition handleStartTimer :: "State \<Rightarrow> Date \<Rightarrow> Outcome \<Rightarrow> Effect list" where
  "handleStartTimer s now r =
     [SetIsLoading True, Api (StartTimer now (timerNotes s))] @
     (case r of
        Resolved \<Rightarrow>
          [SetTimerStartTime (Some now), SetIsTimerActive True, SetIsPaused False,
           SetElapsedSeconds 0, ConsoleLog ''Timer started and saved to backend'']
      | Rejected \<Rightarrow>
          [ConsoleError ''Failed to start timer:'',
           Alert ''Failed to start timer. Please try again.'']) @
     [SetIsLoading False]"

definition handlePauseTimer :: "State \<Rightarrow> Date \<Rightarrow> Outcome \<Rightarrow> Effect list" where
  "handlePauseTimer s now r =
     [SetIsLoading True,
      Api (UpdateTimer \<lparr>u_isPaused = Some True, u_pausedAt = Some (Some now),
                        u_notes = Some (timerNotes s)\<rparr>)] @
     (case r of
        Resolved \<Rightarrow> [SetIsPaused True, ConsoleLog ''Timer paused and saved to backend'']
      | Rejected \<Rightarrow>
          [ConsoleError ''Failed to pause timer:'',
           Alert ''Failed to pause timer. Please try again.'']) @
     [SetIsLoading False]"

definition handleResumeTimer :: "State \<Rightarrow> Outcome \<Rightarrow> Effect list" where
  "handleResumeTimer s r =
     [SetIsLoading True,
      Api (UpdateTimer \<lparr>u_isPaused = Some False, u_pausedAt = Some None,
                        u_notes = Some (timerNotes s)\<rparr>)] @
     (case r of
        Resolved \<Rightarrow> [SetIsPaused False, ConsoleLog ''Timer resumed and saved to backend'']
      | Rejected \<Rightarrow>
          [ConsoleError ''Failed to resume timer:'',
           Alert ''Failed to resume timer. Please try again.'']) @
     [SetIsLoading False]"

text \<open>
  \<open>handleStopTimer\<close> awaits the callback first (\<open>addR\<close>) and the backend's
  \<open>deleteTimer\<close> second (\<open>delR\<close>), both inside the one \<open>try\<close>. With no start time it
  does nothing.
\<close>

definition handleStopTimer :: "State \<Rightarrow> Date \<Rightarrow> Outcome \<Rightarrow> Outcome \<Rightarrow> Effect list" where
  "handleStopTimer s now addR delR =
     (case timerStartTime s of
        None \<Rightarrow> []
      | Some t0 \<Rightarrow>
          [SetIsLoading True, OnAddFast t0 now (timerNotes s)] @
          (case addR of
             Rejected \<Rightarrow>
               [ConsoleError ''Failed to stop timer:'',
                Alert ''Failed to stop timer. Please try again.'']
           | Resolved \<Rightarrow>
               Api DeleteTimer #
               (case delR of
                  Rejected \<Rightarrow>
                    [ConsoleError ''Failed to stop timer:'',
                     Alert ''Failed to stop timer. Please try again.'']
                | Resolved \<Rightarrow>
                    [SetIsTimerActive False, SetTimerStartTime None, SetElapsedSeconds 0,
                     SetIsPaused False, SetTimerNotes [],
                     ConsoleLog ''Timer stopped and fast saved''])) @
          [SetIsLoading False])"

text \<open>
  \<open>handleUpdateTimerNotes\<close> sets the notes first and calls the backend only while the
  timer is active; its \<open>catch\<close> block writes to the console and nothing else.
\<close>

definition handleUpdateTimerNotes :: "State \<Rightarrow> string \<Rightarrow> Outcome \<Rightarrow> Effect list" where
  "handleUpdateTimerNotes s newNotes r =
     SetTimerNotes newNotes #
     (if isTimerActive s
      then Api (UpdateTimer \<lparr>u_isPaused = None, u_pausedAt = None, u_notes = Some newNotes\<rparr>) #
           (case r of
              Resolved \<Rightarrow> []
            | Rejected \<Rightarrow> [ConsoleError ''Failed to update timer notes:''])
      else [])"

section \<open>Live timer: the one-second interval\<close>

text \<open>
  The timer effect, with dependencies \<open>[isTimerActive, timerStartTime, isPaused]\<close>:
  \<^verbatim>\<open>
  useEffect(() => {
    let interval;
    if (isTimerActive && timerStartTime && !isPaused) {
      interval = setInterval(() => {
        setElapsedSeconds(differenceInSeconds(new Date(), timerStartTime));
      }, 1000);
    }
    return () => clearInterval(interval);
  }, [isTimerActive, timerStartTime, isPaused]);
  \<close>
  The component is its committed state together with the browser's live intervals
  (each a handle and the start time its callback holds), the next handle
  \<open>setInterval\<close> will return, and what the last run of the effect left behind: the
  value of its local \<open>interval\<close>, which its cleanup will clear (\<open>None\<close> for
  \<open>undefined\<close>), and the dependencies it ran with.
\<close>

record Component =
  st :: State
  intervals :: "(nat \<times> Date) list"
  nextId :: nat
  effHandle :: "nat option"
  effDeps :: "bool \<times> Date option \<times> bool"

definition deps :: "State \<Rightarrow> bool \<times> Date option \<times> bool" where
  "deps s = (isTimerActive s, timerStartTime s, isPaused s)"

text \<open>
  The body of the effect, run on the committed state: it registers an interval when
  the timer is active, has a start time and is not paused, and keeps its handle.
\<close>

definition timerEffect :: "Component \<Rightarrow> Component" where
  "timerEffect c =
     (case timerStartTime (st c) of
        Some t0 \<Rightarrow>
          if isTimerActive (st c) \<and> \<not> isPaused (st c)
          then c\<lparr>intervals := intervals c @ [(nextId c, t0)],
                 nextId := Suc (nextId c),
                 effHandle := Some (nextId c),
                 effDeps := deps (st c)\<rparr>
          else c\<lparr>effHandle := None, effDeps := deps (st c)\<rparr>
      | None \<Rightarrow> c\<lparr>effHandle := None, effDeps := deps (st c)\<rparr>)"

text \<open>\<open>clearInterval(h)\<close> removes the interval with that handle; \<open>undefined\<close> removes none.\<close>

definition clearInterval :: "Component \<Rightarrow> nat option \<Rightarrow> Component" where
  "clearInterval c h = c\<lparr>intervals := filter (\<lambda>e. Some (fst e) \<noteq> h) (intervals c)\<rparr>"

text \<open>
  Mounting commits the first state and runs the effect. A later state change is
  committed first (\<open>commit\<close>); the effects run afterwards (\<open>flushEffects\<close>): when the
  dependencies differ from those of the last run, the cleanup of that run and then
  the body again. Between the two steps the interval of the last run is still live.
  Unmounting runs the cleanup.
\<close>

definition mount :: "State \<Rightarrow> Component" where
  "mount s =
     timerEffect \<lparr>st = s, intervals = [], nextId = 0, effHandle = None, effDeps = deps s\<rparr>"

definition commit :: "Component \<Rightarrow> State \<Rightarrow> Component" where
  "commit c s' = c\<lparr>st := s'\<rparr>"

definition settled :: "Component \<Rightarrow> bool" where
  "settled c = (effDeps c = deps (st c))"

definition flushEffects :: "Component \<Rightarrow> Component" where
  "flushEffects c =
     (if effDeps c = deps (st c) then c
      else timerEffect (clearInterval c (effHandle c)))"

definition unmount :: "Component \<Rightarrow> Component" where
  "unmount c = clearInterval c (effHandle c)"

text \<open>
  One firing, at clock reading \<open>now\<close>, of the interval with handle \<open>h\<close>: if it is
  live, its callback sets the elapsed seconds from the start time it holds, and the
  new state is committed. In \<open>tick\<close> every live interval fires once.
\<close>

definition fire :: "Component \<Rightarrow> nat \<Rightarrow> Date \<Rightarrow> Component" where
  "fire c h now =
     (case map_of (intervals c) h of
        None \<Rightarrow> c
      | Some t0 \<Rightarrow> commit c (run [SetElapsedSeconds (differenceInSeconds now t0)] (st c)))"

definition tick :: "Component \<Rightarrow> Date \<Rightarrow> Component" where
  "tick c now = foldl (\<lambda>c' e. fire c' (fst e) now) c (intervals c)"

text \<open>A handler's effects: applied to the state, committed, and the effects run.\<close>

definition dispatch :: "Component \<Rightarrow> Effect list \<Rightarrow> Component" where
  "dispatch c es = flushEffects (commit c (run es (st c)))"

text \<open>
  The components that can arise: mounted in some state, then any number of commits
  of new states (whatever a handler sets), runs of the effects and firings of
  intervals, in any order. A firing may come between a commit and the run of the
  effects that follows it.
\<close>

inductive reachable :: "Component \<Rightarrow> bool" where
  reach_mount: "reachable (mount s)"
| reach_commit: "reachable c \<Longrightarrow> reachable (commit c s')"
| reach_flush: "reachable c \<Longrightarrow> reachable (flushEffects c)"
| reach_fire: "reachable c \<Longrightarrow> reachable (fire c h now)"

text \<open>
  What the last run of the effect left live: nothing if it registered nothing, else
  the one interval with its handle and the start time of its dependencies.
\<close>

definition running :: "bool \<times> Date option \<times> bool \<Rightarrow> bool" where
  "running d = (fst d \<and> fst (snd d) \<noteq> None \<and> \<not> snd (snd d))"

definition registered :: "Component \<Rightarrow> (nat \<times> Date) list" where
  "registered c =
     (case effHandle c of
        None \<Rightarrow> []
      | Some h \<Rightarrow> (case fst (snd (effDeps c)) of None \<Rightarrow> [] | Some t0 \<Rightarrow> [(h, t0)]))"

definition effect_inv :: "Component \<Rightarrow> bool" where
  "effect_inv c =
     (intervals c = registered c \<and>
      (effHandle c = None) = (\<not> running (effDeps c)) \<and>
      (case effHandle c of None \<Rightarrow> True | Some h \<Rightarrow> h < nextId c))"

section \<open>Reading a handler's effects\<close>

fun isApi :: "Effect \<Rightarrow> bool" where
  "isApi (Api c) = True"
| "isApi e = False"

fun isAlert :: "Effect \<Rightarrow> bool" where
  "isAlert (Alert m) = True"
| "isAlert e = False"

text \<open>What a handler does before its first call of the backend.\<close>

definition beforeApi :: "Effect list \<Rightarrow> Effect list" where
  "beforeApi es = takeWhile (\<lambda>e. \<not> isApi e) es"

section \<open>Concrete states\<close>

text \<open>
  The initial values of the \<open>useState\<close> cells (lines 19-33), the clock reading \<open>now\<close>
  at the first render: both dates today, start hour 20, end hour 12, no timer.
\<close>

definition initialState :: "Date \<Rightarrow> State" where
  "initialState now =
     \<lparr>startDate = now, endDate = now, startHour = 20, endHour = 12,
      showStartCalendar = False, showEndCalendar = False, notes_st = [],
      isTimerActive = False, timerStartTime = None, elapsedSeconds = 0,
      isPaused = False, timerNotes = [], isLoading = False\<rparr>"

text \<open>
  A timer started at time 0 that ticked at 10 s and was paused at 10.5 s.
\<close>

definition timer_10s_paused :: Component where
  "timer_10s_paused =
     (let c0 = mount ((initialState 0)\<lparr>isTimerActive := True, timerStartTime := Some 0\<rparr>);
          c1 = tick c0 10000
      in dispatch c1 (handlePauseTimer (st c1) 10500 Resolved))"

text \<open>
  A timer running since time 0 whose pause has been committed (the handler's setters
  applied), with the effects not yet run.
\<close>

definition timer_pause_committed :: Component where
  "timer_pause_committed =
     (let c0 = mount ((initialState 0)\<lparr>isTimerActive := True, timerStartTime := Some 0\<rparr>)
      in commit c0 (run (handlePauseTimer (st c0) 10500 Resolved) (st c0)))"

section \<open>Facts about dates\<close>

lemma setDate_getDate_plus1_eq: "setDate_getDate_plus1 t = t + msPerDay"
  by (simp add: setDate_getDate_plus1_def Day_def TimeWithinDay_def algebra_simps)

lemma Day_setHours:
  assumes "0 \<le> h" and "h < 24"
  shows "Day (setHours t h) = Day t"
proof -
  have "0 \<le> h * 3600000" and "h * 3600000 < 86400000"
    using assms by auto
  then have "(t div 86400000 * 86400000 + h * 3600000) div 86400000 = t div 86400000"
    by (simp add: div_pos_pos_trivial)
  then show ?thesis
    by (simp add: Day_def setHours_def msPerDay_def msPerHour_def)
qed

lemma Day_plus_msPerDay: "Day (t + msPerDay) = Day t + 1"
  by (simp add: Day_def msPerDay_def)

lemma differenceInSeconds_nonneg:
  "r \<le> l \<Longrightarrow> differenceInSeconds l r = (l - r) div 1000"
  by (simp add: differenceInSeconds_def truncDiv_def)

section \<open>The overnight rollover\<close>

lemma end_local_le_part001: "end_local s \<le> end_local_part001 s"
  by (simp add: end_local_def end_local_part001_def Let_def setDate_getDate_plus1_eq
      msPerDay_def)

text \<open>
  The copy with the overnight handling: for hours within a day, dates on the same day
  and an end hour below the start hour, \<open>end\<close> lies on the day after \<open>start\<close>, at the
  end hour.
\<close>

lemma end_local_part001_rollover_day:
  assumes "toDateString (startDate s) = toDateString (endDate s)"
    and "endHour s < startHour s" and "0 \<le> endHour s" and "startHour s < 24"
  shows "Day (end_local_part001 s) = Day (start_local s) + 1"
    and "end_local_part001 s = (Day (startDate s) + 1) * msPerDay + endHour s * msPerHour"
proof -
  have e: "end_local_part001 s = setHours (endDate s) (endHour s) + msPerDay"
    using assms by (simp add: end_local_part001_def Let_def setDate_getDate_plus1_eq)
  have "Day (setHours (endDate s) (endHour s)) = Day (endDate s)"
    using assms by (intro Day_setHours) auto
  moreover have "Day (start_local s) = Day (startDate s)"
    unfolding start_local_def using assms by (intro Day_setHours) auto
  ultimately show "Day (end_local_part001 s) = Day (start_local s) + 1"
    using assms e by (simp add: Day_plus_msPerDay toDateString_def)
  show "end_local_part001 s = (Day (startDate s) + 1) * msPerDay + endHour s * msPerHour"
    using assms e by (simp add: setHours_def toDateString_def algebra_simps)
qed

lemma calculateDuration_part001_20_12:
  assumes "toDateString d = toDateString d'"
  shows "calculateDuration_part001
           (s\<lparr>startDate := d, endDate := d', startHour := 20, endHour := 12\<rparr>)
         = Duration 16 0 16"
  using assms
  by (simp add: calculateDuration_part001_def duration_between_def start_local_def
      end_local_part001_def setHours_def msPerHour_def toDateString_def
      setDate_getDate_plus1_eq msPerDay_def differenceInHours_def differenceInMinutes_def
      truncDiv_def jsRem_def)

text \<open>
  C1. In \<open>calculateDuration\<close> and \<open>handleSubmit\<close>, for dates on the same day and an
  end hour below the start hour, the computed end lies one day after the start date.
  The copy in \<open>src/components/CalendarFastEntry.tsx\<close> does not do it: in the initial
  state (both dates today, start hour 20, end hour 12) its \<open>end\<close> stays on the day of
  \<open>start\<close> and \<open>handleSubmit\<close> rejects the entry, where the second copy moves \<open>end\<close> to
  the next day.
\<close>

theorem end_local_no_rollover:
  "Day (end_local (initialState 0)) = Day (start_local (initialState 0)) \<and>
   end_local (initialState 0) \<le> start_local (initialState 0) \<and>
   handleSubmit (initialState 0) 1 2 =
     [PreventDefault, Alert ''End time must be after start time''] \<and>
   Day (end_local_part001 (initialState 0)) = Day (start_local (initialState 0)) + 1"
  by (simp add: initialState_def end_local_def start_local_def end_local_part001_def
      handleSubmit_def submit_between_def setHours_def Day_def msPerDay_def msPerHour_def
      toDateString_def setDate_getDate_plus1_def TimeWithinDay_def)

text \<open>
  C2. Start hour 20 and end hour 12 on the same day \<open>d\<close> give 16 hours and 0 minutes.
  The copy in \<open>src/components/CalendarFastEntry.tsx\<close> returns the sentinel \<open>0\<close> there,
  on every day; the second copy returns the 16 hours.
\<close>

theorem calculateDuration_20_12_sentinel:
  "calculateDuration (s\<lparr>startDate := d, endDate := d, startHour := 20, endHour := 12\<rparr>)
     = Sentinel0 \<and>
   calculateDuration_part001 (s\<lparr>startDate := d, endDate := d, startHour := 20, endHour := 12\<rparr>)
     = Duration 16 0 16"
  using calculateDuration_part001_20_12 [of d d s]
  by (simp add: calculateDuration_def duration_between_def start_local_def end_local_def
      setHours_def msPerHour_def)

text \<open>
  C3. Whenever the end after the rollover adjustment is not after the start,
  \<open>calculateDuration\<close> returns the sentinel \<open>0\<close>, in both copies, and the copy with
  the adjustment returns it in no other case: no duration is reported for an end that
  is not after the start. The function is total: it has no failing branch, and every
  input gives the sentinel or a duration.
\<close>

theorem calculateDuration_sentinel:
  "(calculateDuration_part001 s = Sentinel0 \<longleftrightarrow> end_local_part001 s \<le> start_local s) \<and>
   (end_local_part001 s \<le> start_local s \<longrightarrow> calculateDuration s = Sentinel0)"
  using end_local_le_part001 [of s]
  by (simp add: calculateDuration_part001_def calculateDuration_def duration_between_def
      Let_def)

text \<open>Start and end both at 8 o'clock of the same day: no rollover, and no duration.\<close>

theorem calculateDuration_sentinel_witness:
  "end_local_part001 ((initialState 0)\<lparr>startHour := 8, endHour := 8\<rparr>)
     \<le> start_local ((initialState 0)\<lparr>startHour := 8, endHour := 8\<rparr>) \<and>
   calculateDuration ((initialState 0)\<lparr>startHour := 8, endHour := 8\<rparr>) = Sentinel0 \<and>
   calculateDuration_part001 ((initialState 0)\<lparr>startHour := 8, endHour := 8\<rparr>) = Sentinel0"
proof -
  let ?s = "(initialState 0)\<lparr>startHour := 8, endHour := 8\<rparr>"
  have h: "end_local_part001 ?s \<le> start_local ?s"
    by (simp add: initialState_def end_local_part001_def start_local_def)
  with calculateDuration_sentinel [of ?s] show ?thesis
    by blast
qed

section \<open>What is handed to the history\<close>

lemma OnAddFast_submit_between:
  "OnAddFast a b n \<in> set (submit_between s startT endT now1 now2) \<longleftrightarrow>
   startT < endT \<and> a = startT \<and> b = endT \<and> n = notes_st s"
  by (auto simp add: submit_between_def)

lemma OnAddFast_handleStopTimer:
  "OnAddFast a b n \<in> set (handleStopTimer s now addR delR) \<longleftrightarrow>
   timerStartTime s = Some a \<and> b = now \<and> n = timerNotes s"
  by (auto simp add: handleStopTimer_def split: option.splits Outcome.splits)

text \<open>
  C4, as amended. Every fast that \<open>handleSubmit\<close> hands to \<open>onAddFast\<close> ends after it
  starts; in the copy with the rollover it is the pair of \<open>start\<close> and \<open>end\<close> with the
  rollover applied before the check. The fast that \<open>handleStopTimer\<close> hands over is
  the timer's start time and the clock reading at the stop, with no check: it ends
  after it starts exactly when that reading is later than the start time.
\<close>

theorem onAddFast_positive_duration:
  "(OnAddFast a b n \<in> set (handleSubmit s now1 now2) \<longrightarrow> a < b) \<and>
   (OnAddFast a b n \<in> set (handleSubmit_part001 s now1 now2) \<longrightarrow>
      a < b \<and> a = start_local s \<and> b = end_local_part001 s) \<and>
   (OnAddFast a b n \<in> set (handleStopTimer s now addR delR) \<longrightarrow>
      timerStartTime s = Some a \<and> b = now \<and> n = timerNotes s)"
  by (simp add: handleSubmit_def handleSubmit_part001_def OnAddFast_submit_between
      OnAddFast_handleStopTimer)

text \<open>
  The three paths at work: the initial form in the second copy (20:00 to 12:00 of the
  next day), a form from 8:00 to 12:00 in the first copy, and a timer started at 1 s
  and stopped at 5 s.
\<close>

theorem onAddFast_positive_duration_witness:
  "OnAddFast 72000000 129600000 [] \<in> set (handleSubmit_part001 (initialState 0) 1 2) \<and>
   OnAddFast 28800000 43200000 [] \<in>
     set (handleSubmit ((initialState 0)\<lparr>startHour := 8\<rparr>) 1 2) \<and>
   OnAddFast 1000 5000 [] \<in>
     set (handleStopTimer ((initialState 0)\<lparr>timerStartTime := Some 1000\<rparr>) 5000
            Resolved Resolved) \<and>
   (72000000::int) < 129600000 \<and> (28800000::int) < 43200000 \<and>
   end_local_part001 (initialState 0) = 129600000"
proof -
  have 1: "OnAddFast 72000000 129600000 [] \<in> set (handleSubmit_part001 (initialState 0) 1 2)"
    by (simp add: initialState_def handleSubmit_part001_def submit_between_def
        start_local_def end_local_part001_def setHours_def Day_def msPerDay_def
        msPerHour_def toDateString_def setDate_getDate_plus1_def TimeWithinDay_def)
  have 2: "OnAddFast 28800000 43200000 [] \<in>
      set (handleSubmit ((initialState 0)\<lparr>startHour := 8\<rparr>) 1 2)"
    by (simp add: initialState_def handleSubmit_def submit_between_def start_local_def
        end_local_def setHours_def Day_def msPerDay_def msPerHour_def)
  have 3: "OnAddFast 1000 5000 [] \<in>
      set (handleStopTimer ((initialState 0)\<lparr>timerStartTime := Some 1000\<rparr>) 5000
             Resolved Resolved)"
    by (simp add: initialState_def handleStopTimer_def)
  from 1 2 3
    onAddFast_positive_duration [of 72000000 129600000 "[]" "initialState 0" 1 2]
    onAddFast_positive_duration [of 28800000 43200000 "[]"
      "(initialState 0)\<lparr>startHour := 8\<rparr>" 1 2]
  show ?thesis
    by simp
qed

text \<open>
  C4 as stated fails on the timer path: a timer whose stored start time (5 s) is
  ahead of the clock reading at the stop (3 s) hands over a fast that ends before it
  starts.
\<close>

theorem handleStopTimer_nonpositive_fast:
  "OnAddFast 5000 3000 [] \<in>
     set (handleStopTimer
            ((initialState 0)\<lparr>isTimerActive := True, timerStartTime := Some 5000\<rparr>)
            3000 Resolved Resolved) \<and>
   \<not> (5000::int) < 3000"
  by (simp add: initialState_def handleStopTimer_def)

text \<open>
  C5. When the end after the rollover adjustment is not after the start,
  \<open>handleSubmit\<close> only prevents the default and shows the alert, in both copies:
  \<open>onAddFast\<close> is not called, nothing fails, and the form state is unchanged.
\<close>

theorem handleSubmit_invalid_blocks:
  "(end_local_part001 s \<le> start_local s \<longrightarrow>
      handleSubmit_part001 s now1 now2 =
        [PreventDefault, Alert ''End time must be after start time''] \<and>
      run (handleSubmit_part001 s now1 now2) s = s \<and>
      handleSubmit s now1 now2 =
        [PreventDefault, Alert ''End time must be after start time''] \<and>
      run (handleSubmit s now1 now2) s = s)"
  using end_local_le_part001 [of s]
  by (simp add: handleSubmit_part001_def handleSubmit_def submit_between_def)

text \<open>A form from 9:00 to 7:00 of the day before, with notes.\<close>

theorem handleSubmit_invalid_blocks_witness:
  "end_local_part001
     ((initialState 86400000)\<lparr>endDate := 0, startHour := 9, endHour := 7, notes_st := ''n''\<rparr>)
     \<le> start_local
     ((initialState 86400000)\<lparr>endDate := 0, startHour := 9, endHour := 7, notes_st := ''n''\<rparr>) \<and>
   handleSubmit_part001
     ((initialState 86400000)\<lparr>endDate := 0, startHour := 9, endHour := 7, notes_st := ''n''\<rparr>)
     1 2 = [PreventDefault, Alert ''End time must be after start time''] \<and>
   run (handleSubmit_part001
     ((initialState 86400000)\<lparr>endDate := 0, startHour := 9, endHour := 7, notes_st := ''n''\<rparr>)
     1 2)
     ((initialState 86400000)\<lparr>endDate := 0, startHour := 9, endHour := 7, notes_st := ''n''\<rparr>)
   = (initialState 86400000)\<lparr>endDate := 0, startHour := 9, endHour := 7, notes_st := ''n''\<rparr>"
proof -
  let ?s = "(initialState 86400000)\<lparr>endDate := 0, startHour := 9, endHour := 7,
    notes_st := ''n''\<rparr>"
  have h: "end_local_part001 ?s \<le> start_local ?s"
    by (simp add: initialState_def end_local_part001_def start_local_def toDateString_def
        setHours_def Day_def msPerDay_def msPerHour_def)
  with handleSubmit_invalid_blocks [of ?s 1 2] show ?thesis
    by blast
qed

section \<open>Loading and stopping the timer\<close>

text \<open>
  C6. When the backend has a timer, \<open>loadTimerFromBackend\<close> sets the elapsed seconds
  to the whole seconds of \<open>now - startTime\<close> when the timer is not paused, and of
  \<open>pausedAt - startTime\<close> when it is paused and \<open>pausedAt\<close> is there (rounded towards
  zero, so downwards when the start time is not in the future); it leaves them alone
  when the timer is paused and \<open>pausedAt\<close> is missing. The timer becomes active with
  the stored start time and pause flag. With no stored timer only \<open>isLoading\<close> is
  touched.
\<close>

theorem loadTimerFromBackend_elapsed:
  "elapsedSeconds (run (loadTimerFromBackend (GetResolved (Some td)) now) s) =
     (if \<not> td_isPaused td
      then (if td_startTime td \<le> now then (now - td_startTime td) div 1000
            else - ((td_startTime td - now) div 1000))
      else (case td_pausedAt td of
              Some p \<Rightarrow>
                (if td_startTime td \<le> p then (p - td_startTime td) div 1000
                 else - ((td_startTime td - p) div 1000))
            | None \<Rightarrow> elapsedSeconds s)) \<and>
   timerStartTime (run (loadTimerFromBackend (GetResolved (Some td)) now) s)
     = Some (td_startTime td) \<and>
   isTimerActive (run (loadTimerFromBackend (GetResolved (Some td)) now) s) \<and>
   isPaused (run (loadTimerFromBackend (GetResolved (Some td)) now) s) = td_isPaused td \<and>
   run (loadTimerFromBackend (GetResolved None) now) s = s\<lparr>isLoading := False\<rparr>"
  by (simp add: loadTimerFromBackend_def differenceInSeconds_def truncDiv_def
      split: option.splits)

text \<open>
  A timer started at 1 s and loaded at 66.5 s: 65 elapsed seconds when it runs, 30
  when it was paused at 31.999 s, and the 7 seconds shown before when it is paused
  with no \<open>pausedAt\<close>.
\<close>

theorem loadTimerFromBackend_elapsed_witness:
  "elapsedSeconds (run (loadTimerFromBackend (GetResolved (Some
      \<lparr>td_startTime = 1000, td_isPaused = False, td_pausedAt = None, td_notes = None\<rparr>))
      66500) (initialState 0)) = 65 \<and>
   elapsedSeconds (run (loadTimerFromBackend (GetResolved (Some
      \<lparr>td_startTime = 1000, td_isPaused = True, td_pausedAt = Some 31999,
       td_notes = Some ''n''\<rparr>))
      66500) (initialState 0)) = 30 \<and>
   elapsedSeconds (run (loadTimerFromBackend (GetResolved (Some
      \<lparr>td_startTime = 1000, td_isPaused = True, td_pausedAt = None, td_notes = None\<rparr>))
      66500) ((initialState 0)\<lparr>elapsedSeconds := 7\<rparr>)) = 7"
  using
    loadTimerFromBackend_elapsed [of
      "\<lparr>td_startTime = 1000, td_isPaused = False, td_pausedAt = None, td_notes = None\<rparr>"
      66500 "initialState 0"]
    loadTimerFromBackend_elapsed [of
      "\<lparr>td_startTime = 1000, td_isPaused = True, td_pausedAt = Some 31999,
        td_notes = Some ''n''\<rparr>"
      66500 "initialState 0"]
    loadTimerFromBackend_elapsed [of
      "\<lparr>td_startTime = 1000, td_isPaused = True, td_pausedAt = None, td_notes = None\<rparr>"
      66500 "(initialState 0)\<lparr>elapsedSeconds := 7\<rparr>"]
  by simp

text \<open>
  C10. With a start time, \<open>handleStopTimer\<close> calls \<open>onAddFast\<close> before the backend's
  \<open>deleteTimer\<close>; when \<open>deleteTimer\<close> fails the fast has been handed over, the alert
  is shown, and the state is the one before but for \<open>isLoading\<close>, so the timer stays
  as it was. With no start time it does nothing at all.
\<close>

theorem handleStopTimer_not_atomic:
  "(timerStartTime s = Some t0 \<longrightarrow>
      handleStopTimer s now Resolved Rejected =
        [SetIsLoading True, OnAddFast t0 now (timerNotes s), Api DeleteTimer,
         ConsoleError ''Failed to stop timer:'',
         Alert ''Failed to stop timer. Please try again.'',
         SetIsLoading False] \<and>
      run (handleStopTimer s now Resolved Rejected) s = s\<lparr>isLoading := False\<rparr> \<and>
      beforeApi (handleStopTimer s now Resolved delR) =
        [SetIsLoading True, OnAddFast t0 now (timerNotes s)]) \<and>
   (timerStartTime s = None \<longrightarrow>
      handleStopTimer s now addR delR = [] \<and> run (handleStopTimer s now addR delR) s = s)"
  by (simp add: handleStopTimer_def beforeApi_def)

text \<open>An active timer started at 1 s, stopped at 5 s; and the initial state, with no timer.\<close>

theorem handleStopTimer_not_atomic_witness:
  "timerStartTime ((initialState 0)\<lparr>isTimerActive := True, timerStartTime := Some 1000\<rparr>)
     = Some 1000 \<and>
   handleStopTimer ((initialState 0)\<lparr>isTimerActive := True, timerStartTime := Some 1000\<rparr>)
     5000 Resolved Rejected =
     [SetIsLoading True, OnAddFast 1000 5000 [], Api DeleteTimer,
      ConsoleError ''Failed to stop timer:'',
      Alert ''Failed to stop timer. Please try again.'',
      SetIsLoading False] \<and>
   isTimerActive (run (handleStopTimer
       ((initialState 0)\<lparr>isTimerActive := True, timerStartTime := Some 1000\<rparr>)
       5000 Resolved Rejected)
     ((initialState 0)\<lparr>isTimerActive := True, timerStartTime := Some 1000\<rparr>)) \<and>
   timerStartTime (initialState 0) = None \<and>
   handleStopTimer (initialState 0) 5000 Resolved Resolved = []"
proof -
  let ?s = "(initialState 0)\<lparr>isTimerActive := True, timerStartTime := Some 1000\<rparr>"
  have a: "timerStartTime ?s = Some 1000" and t: "timerNotes ?s = []"
    and i: "isTimerActive (?s\<lparr>isLoading := False\<rparr>)"
    by (simp_all add: initialState_def)
  have n: "timerStartTime (initialState 0) = None"
    by (simp add: initialState_def)
  from a t i n
    handleStopTimer_not_atomic [of ?s 1000 5000 Rejected Resolved]
    handleStopTimer_not_atomic [of "initialState 0" 0 5000 Resolved Resolved]
  show ?thesis
    by simp
qed

section \<open>The interval follows the effect\<close>

lemma effect_inv_mount: "effect_inv (mount s)"
  by (simp add: effect_inv_def mount_def timerEffect_def registered_def running_def deps_def
      split: option.splits)

lemma effect_inv_commit: "effect_inv c \<Longrightarrow> effect_inv (commit c s')"
  by (simp add: effect_inv_def commit_def registered_def split: option.splits)

lemma intervals_cleared:
  assumes "effect_inv c"
  shows "intervals (clearInterval c (effHandle c)) = []"
  using assms
  by (simp add: effect_inv_def clearInterval_def registered_def split: option.splits)

lemma effect_inv_flushEffects:
  assumes "effect_inv c"
  shows "effect_inv (flushEffects c)"
proof (cases "effDeps c = deps (st c)")
  case True
  with assms show ?thesis
    by (simp add: flushEffects_def)
next
  case False
  have "intervals (clearInterval c (effHandle c)) = []"
    using assms by (rule intervals_cleared)
  then have "effect_inv (timerEffect (clearInterval c (effHandle c)))"
    by (simp add: effect_inv_def timerEffect_def registered_def running_def deps_def
        clearInterval_def split: option.splits)
  with False show ?thesis
    by (simp add: flushEffects_def)
qed

lemma effect_inv_fire: "effect_inv c \<Longrightarrow> effect_inv (fire c h now)"
  by (simp add: fire_def effect_inv_commit split: option.splits)

text \<open>
  In every component that can arise, the live intervals are what the last run of the
  effect registered: at most one, and one only if that run saw an active, started,
  unpaused timer.
\<close>

lemma reachable_effect_inv: "reachable c \<Longrightarrow> effect_inv c"
  by (induction rule: reachable.induct)
    (simp_all add: effect_inv_mount effect_inv_commit effect_inv_flushEffects effect_inv_fire)

lemma settled_flushEffects: "settled (flushEffects c)"
  by (simp add: settled_def flushEffects_def timerEffect_def clearInterval_def
      split: option.splits)

lemma st_flushEffects: "st (flushEffects c) = st c"
  by (simp add: flushEffects_def timerEffect_def clearInterval_def split: option.splits)

lemma st_commit: "st (commit c s') = s'"
  by (simp add: commit_def)

lemma tick_no_interval: "intervals c = [] \<Longrightarrow> tick c now = c"
  by (simp add: tick_def)

lemma fire_no_interval: "intervals c = [] \<Longrightarrow> fire c h now = c"
  by (simp add: fire_def)

lemma tick_one_interval:
  "intervals c = [(h, t0)] \<Longrightarrow>
   tick c now = commit c (run [SetElapsedSeconds (differenceInSeconds now t0)] (st c))"
  by (simp add: tick_def fire_def)

lemma settled_idle_intervals:
  assumes "effect_inv c" and "settled c"
    and "\<not> isTimerActive (st c) \<or> timerStartTime (st c) = None \<or> isPaused (st c)"
  shows "intervals c = []"
proof -
  have "\<not> running (effDeps c)"
    using assms(2,3) by (auto simp add: settled_def running_def deps_def)
  with assms(1) show ?thesis
    by (simp add: effect_inv_def registered_def)
qed

lemma settled_running_intervals:
  assumes "effect_inv c" and "settled c"
    and "isTimerActive (st c)" and "timerStartTime (st c) = Some t0" and "\<not> isPaused (st c)"
  shows "\<exists>h. effHandle c = Some h \<and> intervals c = [(h, t0)]"
proof -
  have d: "effDeps c = (True, Some t0, False)"
    using assms(2-5) by (simp add: settled_def deps_def)
  then have "running (effDeps c)"
    by (simp add: running_def)
  with assms(1) obtain h where "effHandle c = Some h"
    by (auto simp add: effect_inv_def)
  with assms(1) d show ?thesis
    by (simp add: effect_inv_def registered_def)
qed

lemma old_interval_cancelled:
  assumes "effect_inv c" and "\<not> settled c" and "effHandle c = Some h"
  shows "map_of (intervals (flushEffects c)) h = None"
proof -
  have e: "intervals (clearInterval c (effHandle c)) = []"
    using assms(1) by (rule intervals_cleared)
  have n: "h < nextId c"
    using assms(1,3) by (simp add: effect_inv_def)
  have "map_of (intervals (timerEffect (clearInterval c (effHandle c)))) h = None"
    using e n by (simp add: timerEffect_def clearInterval_def split: option.splits)
  with assms(2) show ?thesis
    by (simp add: flushEffects_def settled_def)
qed

text \<open>
  C9, as amended. In every component that can arise, at most one interval is live,
  and it was registered by a run of the effect that saw the timer active, with a
  start time and not paused. Once the effects have run for the current state: while
  the timer is inactive, has no start time or is paused, no interval is live and no
  firing changes anything; while it is active, started and not paused, a firing sets
  the elapsed seconds from the start time and nothing else. When a dependency has
  changed, the run of the effects clears the interval of the run before; unmounting
  clears it too, and no firing changes anything afterwards.
\<close>

theorem tick_only_while_running:
  assumes "reachable c"
  shows "length (intervals c) \<le> 1 \<and>
         (intervals c \<noteq> [] \<longrightarrow> running (effDeps c)) \<and>
         (settled c \<and>
          (\<not> isTimerActive (st c) \<or> timerStartTime (st c) = None \<or> isPaused (st c))
            \<longrightarrow> intervals c = [] \<and> fire c h now = c \<and> tick c now = c) \<and>
         (settled c \<and>
          isTimerActive (st c) \<and> timerStartTime (st c) = Some t0 \<and> \<not> isPaused (st c)
            \<longrightarrow> st (tick c now) = (st c)\<lparr>elapsedSeconds := differenceInSeconds now t0\<rparr>) \<and>
         settled (flushEffects c) \<and>
         (\<not> settled c \<and> effHandle c = Some h
            \<longrightarrow> map_of (intervals (flushEffects c)) h = None) \<and>
         intervals (unmount c) = [] \<and>
         tick (unmount c) now = unmount c"
proof -
  have i: "effect_inv c"
    using assms by (rule reachable_effect_inv)
  have 1: "length (intervals c) \<le> 1 \<and> (intervals c \<noteq> [] \<longrightarrow> running (effDeps c))"
    using i by (auto simp add: effect_inv_def registered_def split: option.splits)
  have 2: "settled c \<and>
      (\<not> isTimerActive (st c) \<or> timerStartTime (st c) = None \<or> isPaused (st c))
      \<longrightarrow> intervals c = [] \<and> fire c h now = c \<and> tick c now = c"
    using settled_idle_intervals [OF i] tick_no_interval fire_no_interval by blast
  have 3: "settled c \<and>
      isTimerActive (st c) \<and> timerStartTime (st c) = Some t0 \<and> \<not> isPaused (st c)
      \<longrightarrow> st (tick c now) = (st c)\<lparr>elapsedSeconds := differenceInSeconds now t0\<rparr>"
  proof
    assume a: "settled c \<and>
      isTimerActive (st c) \<and> timerStartTime (st c) = Some t0 \<and> \<not> isPaused (st c)"
    then obtain k where "intervals c = [(k, t0)]"
      using settled_running_intervals [OF i] by blast
    then show "st (tick c now) = (st c)\<lparr>elapsedSeconds := differenceInSeconds now t0\<rparr>"
      by (simp add: tick_one_interval st_commit)
  qed
  have 4: "\<not> settled c \<and> effHandle c = Some h
      \<longrightarrow> map_of (intervals (flushEffects c)) h = None"
    using old_interval_cancelled [OF i] by blast
  have u: "intervals (unmount c) = []"
    unfolding unmount_def using i by (rule intervals_cleared)
  then have 5: "tick (unmount c) now = unmount c"
    by (rule tick_no_interval)
  from 1 2 3 4 u 5 settled_flushEffects [of c] show ?thesis
    by blast
qed

text \<open>
  The paused timer: it can arise, its effects have run, no interval is live, and a
  firing at 50 s leaves it as it is. Before the pause, the running timer's tick at
  10 s set the elapsed seconds to 10.
\<close>

theorem tick_only_while_running_witness:
  "reachable timer_10s_paused \<and> settled timer_10s_paused \<and>
   isPaused (st timer_10s_paused) \<and>
   intervals timer_10s_paused = [] \<and> tick timer_10s_paused 50000 = timer_10s_paused"
proof -
  have t: "reachable (tick c now)" if "reachable c" for c now
  proof -
    have "reachable (foldl (\<lambda>c' e. fire c' (fst e) now) c xs)" for xs
      using that by (induction xs arbitrary: c) (simp_all add: reachable.intros)
    then show ?thesis
      by (simp add: tick_def)
  qed
  have r: "reachable timer_10s_paused"
    unfolding timer_10s_paused_def Let_def dispatch_def
    by (intro reachable.intros t)
  have s: "settled timer_10s_paused"
    by (simp add: timer_10s_paused_def Let_def dispatch_def settled_flushEffects)
  have p: "isPaused (st timer_10s_paused)"
    by (simp add: timer_10s_paused_def Let_def dispatch_def st_flushEffects st_commit
        handlePauseTimer_def)
  from tick_only_while_running [OF r, of 0 50000] s p r show ?thesis
    by blast
qed

text \<open>
  C9 as stated fails between a commit and the run of the effects: a timer running
  since time 0 whose pause has been committed, but whose effects have not yet run,
  is paused with its interval still live, and a firing at 12 s sets the elapsed
  seconds from 0 to 12; once the effects have run, the same firing changes nothing.
\<close>

theorem tick_before_cleanup_updates_paused:
  "reachable timer_pause_committed \<and>
   \<not> settled timer_pause_committed \<and>
   isTimerActive (st timer_pause_committed) \<and>
   isPaused (st timer_pause_committed) \<and>
   intervals timer_pause_committed = [(0, 0)] \<and>
   elapsedSeconds (st timer_pause_committed) = 0 \<and>
   elapsedSeconds (st (tick timer_pause_committed 12000)) = 12 \<and>
   elapsedSeconds (st (tick (flushEffects timer_pause_committed) 12000)) = 0"
proof -
  have "reachable timer_pause_committed"
    unfolding timer_pause_committed_def Let_def
    by (intro reachable.intros)
  then show ?thesis
    by (simp add: timer_pause_committed_def Let_def commit_def mount_def timerEffect_def
        deps_def initialState_def tick_def fire_def settled_def flushEffects_def
        clearInterval_def handlePauseTimer_def differenceInSeconds_def truncDiv_def)
qed

section \<open>Pause, resume and the backend\<close>

text \<open>
  C7, as amended. \<open>handleResumeTimer\<close> leaves the elapsed seconds as they are, whether
  the backend accepts or not: right after a resume the display shows the value it was
  frozen at. The time spent paused is not taken out: the first firing of the interval
  after the resume of an active, paused timer shows the whole seconds from the start
  time to now.
\<close>

theorem handleResumeTimer_keeps_elapsed:
  "elapsedSeconds (st (dispatch c (handleResumeTimer (st c) r))) = elapsedSeconds (st c) \<and>
   (reachable c \<and>
    isTimerActive (st c) \<and> timerStartTime (st c) = Some t0 \<and> isPaused (st c) \<longrightarrow>
      elapsedSeconds (st (tick (dispatch c (handleResumeTimer (st c) Resolved)) now))
        = differenceInSeconds now t0)"
proof -
  let ?d = "dispatch c (handleResumeTimer (st c) Resolved)"
  have s: "st (dispatch c (handleResumeTimer (st c) r')) =
      run (handleResumeTimer (st c) r') (st c)" for r'
    by (simp add: dispatch_def st_flushEffects st_commit)
  have 1: "elapsedSeconds (st (dispatch c (handleResumeTimer (st c) r))) = elapsedSeconds (st c)"
    unfolding s by (cases r) (simp_all add: handleResumeTimer_def)
  have 2: "elapsedSeconds (st (tick ?d now)) = differenceInSeconds now t0"
    if a: "reachable c \<and>
      isTimerActive (st c) \<and> timerStartTime (st c) = Some t0 \<and> isPaused (st c)"
  proof -
    have "reachable ?d"
      unfolding dispatch_def using a by (intro reachable.intros) simp
    then have i: "effect_inv ?d"
      by (rule reachable_effect_inv)
    have e: "settled ?d"
      by (simp add: dispatch_def settled_flushEffects)
    have "isTimerActive (st ?d)" and "timerStartTime (st ?d) = Some t0"
      and "\<not> isPaused (st ?d)"
      unfolding s using a by (simp_all add: handleResumeTimer_def)
    with i e obtain h where "intervals ?d = [(h, t0)]"
      using settled_running_intervals [of ?d t0] by blast
    then show ?thesis
      by (simp add: tick_one_interval st_commit)
  qed
  from 1 2 show ?thesis
    by blast
qed

theorem handleResumeTimer_keeps_elapsed_witness:
  "reachable timer_10s_paused \<and>
   isTimerActive (st timer_10s_paused) \<and> timerStartTime (st timer_10s_paused) = Some 0 \<and>
   isPaused (st timer_10s_paused) \<and>
   elapsedSeconds (st (tick (dispatch timer_10s_paused
      (handleResumeTimer (st timer_10s_paused) Resolved)) 101000))
     = differenceInSeconds 101000 0"
proof -
  have t: "reachable (tick c now)" if "reachable c" for c now
  proof -
    have "reachable (foldl (\<lambda>c' e. fire c' (fst e) now) c xs)" for xs
      using that by (induction xs arbitrary: c) (simp_all add: reachable.intros)
    then show ?thesis
      by (simp add: tick_def)
  qed
  have r: "reachable timer_10s_paused"
    unfolding timer_10s_paused_def Let_def dispatch_def
    by (intro reachable.intros t)
  have h: "isTimerActive (st timer_10s_paused) \<and>
      timerStartTime (st timer_10s_paused) = Some 0 \<and> isPaused (st timer_10s_paused)"
    by (simp add: timer_10s_paused_def Let_def dispatch_def st_flushEffects st_commit
        mount_def timerEffect_def deps_def tick_def fire_def commit_def initialState_def
        handlePauseTimer_def)
  with r handleResumeTimer_keeps_elapsed [of timer_10s_paused Resolved 0 101000]
  show ?thesis
    by blast
qed

text \<open>
  C7 as stated fails at the next firing: the timer started at 0 and paused with 10
  elapsed seconds shows 10 right after the resume, and 101 at a firing at 101 s, one
  second after a resume at 100 s; the 90 seconds of the pause are counted.
\<close>

theorem resume_then_tick_jumps:
  "elapsedSeconds (st timer_10s_paused) = 10 \<and>
   elapsedSeconds (st (dispatch timer_10s_paused
      (handleResumeTimer (st timer_10s_paused) Resolved))) = 10 \<and>
   elapsedSeconds (st (tick (dispatch timer_10s_paused
      (handleResumeTimer (st timer_10s_paused) Resolved)) 101000)) = 101"
  by (simp add: timer_10s_paused_def Let_def dispatch_def mount_def tick_def fire_def
      commit_def flushEffects_def deps_def timerEffect_def clearInterval_def initialState_def
      handlePauseTimer_def handleResumeTimer_def differenceInSeconds_def truncDiv_def)

text \<open>
  C8, as amended. Start, pause, resume and stop set nothing but \<open>isLoading\<close> before
  their one call of the backend (stop also hands the fast to \<open>onAddFast\<close> before it);
  when the backend accepts, the timer state is set after the call; when it rejects,
  an alert is shown and the state is left as it was, with \<open>isLoading\<close> false again.
  \<open>handleUpdateTimerNotes\<close> sets the notes first; it then calls the backend, once,
  when the timer is active, and not at all when it is not; a rejection is written to
  the console, with no alert, and the new notes stay.
\<close>

theorem timer_mutations_backend_first:
  "beforeApi (handleStartTimer s now r) = [SetIsLoading True] \<and>
   beforeApi (handlePauseTimer s now r) = [SetIsLoading True] \<and>
   beforeApi (handleResumeTimer s r) = [SetIsLoading True] \<and>
   beforeApi (handleStopTimer (s\<lparr>timerStartTime := Some t0\<rparr>) now Resolved r) =
     [SetIsLoading True, OnAddFast t0 now (timerNotes s)] \<and>
   filter isApi (handleStartTimer s now r) = [Api (StartTimer now (timerNotes s))] \<and>
   filter isApi (handlePauseTimer s now r) =
     [Api (UpdateTimer \<lparr>u_isPaused = Some True, u_pausedAt = Some (Some now),
                        u_notes = Some (timerNotes s)\<rparr>)] \<and>
   filter isApi (handleResumeTimer s r) =
     [Api (UpdateTimer \<lparr>u_isPaused = Some False, u_pausedAt = Some None,
                        u_notes = Some (timerNotes s)\<rparr>)] \<and>
   filter isApi (handleStopTimer (s\<lparr>timerStartTime := Some t0\<rparr>) now Resolved r) =
     [Api DeleteTimer] \<and>
   run (handleStartTimer s now Resolved) s =
     s\<lparr>timerStartTime := Some now, isTimerActive := True, isPaused := False,
       elapsedSeconds := 0, isLoading := False\<rparr> \<and>
   run (handlePauseTimer s now Resolved) s = s\<lparr>isPaused := True, isLoading := False\<rparr> \<and>
   run (handleResumeTimer s Resolved) s = s\<lparr>isPaused := False, isLoading := False\<rparr> \<and>
   run (handleStopTimer (s\<lparr>timerStartTime := Some t0\<rparr>) now Resolved Resolved)
       (s\<lparr>timerStartTime := Some t0\<rparr>) =
     s\<lparr>isTimerActive := False, timerStartTime := None, elapsedSeconds := 0,
       isPaused := False, timerNotes := [], isLoading := False\<rparr> \<and>
   run (handleStartTimer s now Rejected) s = s\<lparr>isLoading := False\<rparr> \<and>
   run (handlePauseTimer s now Rejected) s = s\<lparr>isLoading := False\<rparr> \<and>
   run (handleResumeTimer s Rejected) s = s\<lparr>isLoading := False\<rparr> \<and>
   run (handleStopTimer (s\<lparr>timerStartTime := Some t0\<rparr>) now Resolved Rejected)
       (s\<lparr>timerStartTime := Some t0\<rparr>)
     = s\<lparr>timerStartTime := Some t0, isLoading := False\<rparr> \<and>
   list_ex isAlert (handleStartTimer s now Rejected) \<and>
   list_ex isAlert (handlePauseTimer s now Rejected) \<and>
   list_ex isAlert (handleResumeTimer s Rejected) \<and>
   list_ex isAlert (handleStopTimer (s\<lparr>timerStartTime := Some t0\<rparr>) now Resolved Rejected) \<and>
   beforeApi (handleUpdateTimerNotes s newNotes r) = [SetTimerNotes newNotes] \<and>
   timerNotes (run (handleUpdateTimerNotes s newNotes r) s) = newNotes \<and>
   \<not> list_ex isAlert (handleUpdateTimerNotes s newNotes r) \<and>
   handleUpdateTimerNotes (s\<lparr>isTimerActive := True\<rparr>) newNotes Resolved =
     [SetTimerNotes newNotes,
      Api (UpdateTimer \<lparr>u_isPaused = None, u_pausedAt = None, u_notes = Some newNotes\<rparr>)] \<and>
   handleUpdateTimerNotes (s\<lparr>isTimerActive := True\<rparr>) newNotes Rejected =
     [SetTimerNotes newNotes,
      Api (UpdateTimer \<lparr>u_isPaused = None, u_pausedAt = None, u_notes = Some newNotes\<rparr>),
      ConsoleError ''Failed to update timer notes:''] \<and>
   handleUpdateTimerNotes (s\<lparr>isTimerActive := False\<rparr>) newNotes r = [SetTimerNotes newNotes]"
proof -
  have start: "beforeApi (handleStartTimer s now r) = [SetIsLoading True] \<and>
      filter isApi (handleStartTimer s now r) = [Api (StartTimer now (timerNotes s))] \<and>
      run (handleStartTimer s now Resolved) s =
        s\<lparr>timerStartTime := Some now, isTimerActive := True, isPaused := False,
          elapsedSeconds := 0, isLoading := False\<rparr> \<and>
      run (handleStartTimer s now Rejected) s = s\<lparr>isLoading := False\<rparr> \<and>
      list_ex isAlert (handleStartTimer s now Rejected)"
    by (cases r) (simp_all add: beforeApi_def handleStartTimer_def)
  have pause: "beforeApi (handlePauseTimer s now r) = [SetIsLoading True] \<and>
      filter isApi (handlePauseTimer s now r) =
        [Api (UpdateTimer \<lparr>u_isPaused = Some True, u_pausedAt = Some (Some now),
                           u_notes = Some (timerNotes s)\<rparr>)] \<and>
      run (handlePauseTimer s now Resolved) s = s\<lparr>isPaused := True, isLoading := False\<rparr> \<and>
      run (handlePauseTimer s now Rejected) s = s\<lparr>isLoading := False\<rparr> \<and>
      list_ex isAlert (handlePauseTimer s now Rejected)"
    by (cases r) (simp_all add: beforeApi_def handlePauseTimer_def)
  have resume: "beforeApi (handleResumeTimer s r) = [SetIsLoading True] \<and>
      filter isApi (handleResumeTimer s r) =
        [Api (UpdateTimer \<lparr>u_isPaused = Some False, u_pausedAt = Some None,
                           u_notes = Some (timerNotes s)\<rparr>)] \<and>
      run (handleResumeTimer s Resolved) s = s\<lparr>isPaused := False, isLoading := False\<rparr> \<and>
      run (handleResumeTimer s Rejected) s = s\<lparr>isLoading := False\<rparr> \<and>
      list_ex isAlert (handleResumeTimer s Rejected)"
    by (cases r) (simp_all add: beforeApi_def handleResumeTimer_def)
  have stop: "beforeApi (handleStopTimer (s\<lparr>timerStartTime := Some t0\<rparr>) now Resolved r) =
        [SetIsLoading True, OnAddFast t0 now (timerNotes s)] \<and>
      filter isApi (handleStopTimer (s\<lparr>timerStartTime := Some t0\<rparr>) now Resolved r) =
        [Api DeleteTimer] \<and>
      run (handleStopTimer (s\<lparr>timerStartTime := Some t0\<rparr>) now Resolved Resolved)
          (s\<lparr>timerStartTime := Some t0\<rparr>) =
        s\<lparr>isTimerActive := False, timerStartTime := None, elapsedSeconds := 0,
          isPaused := False, timerNotes := [], isLoading := False\<rparr> \<and>
      run (handleStopTimer (s\<lparr>timerStartTime := Some t0\<rparr>) now Resolved Rejected)
          (s\<lparr>timerStartTime := Some t0\<rparr>)
        = s\<lparr>timerStartTime := Some t0, isLoading := False\<rparr> \<and>
      list_ex isAlert (handleStopTimer (s\<lparr>timerStartTime := Some t0\<rparr>) now Resolved Rejected)"
    by (cases r) (simp_all add: beforeApi_def handleStopTimer_def)
  have upd: "beforeApi (handleUpdateTimerNotes s newNotes r) = [SetTimerNotes newNotes] \<and>
      timerNotes (run (handleUpdateTimerNotes s newNotes r) s) = newNotes \<and>
      \<not> list_ex isAlert (handleUpdateTimerNotes s newNotes r) \<and>
      handleUpdateTimerNotes (s\<lparr>isTimerActive := True\<rparr>) newNotes Resolved =
        [SetTimerNotes newNotes,
         Api (UpdateTimer \<lparr>u_isPaused = None, u_pausedAt = None, u_notes = Some newNotes\<rparr>)] \<and>
      handleUpdateTimerNotes (s\<lparr>isTimerActive := True\<rparr>) newNotes Rejected =
        [SetTimerNotes newNotes,
         Api (UpdateTimer \<lparr>u_isPaused = None, u_pausedAt = None, u_notes = Some newNotes\<rparr>),
         ConsoleError ''Failed to update timer notes:''] \<and>
      handleUpdateTimerNotes (s\<lparr>isTimerActive := False\<rparr>) newNotes r = [SetTimerNotes newNotes]"
    by (cases r) (simp_all add: beforeApi_def handleUpdateTimerNotes_def)
  from start pause resume stop upd show ?thesis
    by simp
qed

text \<open>
  C8 as stated fails for the notes: on an active timer whose backend rejects the
  update, the notes are set first, the backend is called second, no alert follows,
  and the new notes stay in the state.
\<close>

theorem handleUpdateTimerNotes_local_first:
  "handleUpdateTimerNotes ((initialState 0)\<lparr>isTimerActive := True, timerStartTime := Some 0\<rparr>)
      ''x'' Rejected =
     [SetTimerNotes ''x'',
      Api (UpdateTimer \<lparr>u_isPaused = None, u_pausedAt = None, u_notes = Some ''x''\<rparr>),
      ConsoleError ''Failed to update timer notes:''] \<and>
   timerNotes (run (handleUpdateTimerNotes
      ((initialState 0)\<lparr>isTimerActive := True, timerStartTime := Some 0\<rparr>) ''x'' Rejected)
      ((initialState 0)\<lparr>isTimerActive := True, timerStartTime := Some 0\<rparr>)) = ''x'' \<and>
   timerNotes ((initialState 0)\<lparr>isTimerActive := True, timerStartTime := Some 0\<rparr>) = []"
  by (simp add: handleUpdateTimerNotes_def initialState_def)

end
